theory Spec2Isabelle
  imports Complex_Main
begin

section \<open>The SE(2) SpaceMouse adapter\<close>

text \<open>
  A shallow embedding of \<^verbatim>\<open>se2_spacemouse.py\<close> (class \<^verbatim>\<open>Se2SpaceMouse\<close>).
  Python floats and the entries of numpy arrays are modelled as \<^typ>\<open>real\<close>; every
  statement below about a product only names the product the code computes and uses no
  law of arithmetic. A numpy vector is a list. A Python exception is a value: an
  operation that can raise returns \<open>Inl (e, s)\<close>, the error together with the object
  as it is at the raise, or \<open>Inr s\<close>, the object after a normal return.
\<close>

subsection \<open>Data\<close>

datatype py_error = IndexError | AttributeError

text \<open>
  The reading of the device, \<^verbatim>\<open>self._state\<close>. The adapter reads only its
  \<^verbatim>\<open>buttons\<close>; the axes are consumed by the base class when it computes the twist.
\<close>

record mouse_state =
  buttons :: "bool list"
  axes :: "real list"

text \<open>
  The calls of the poll handler into the base class that act on the outside world,
  in the order they are made.
\<close>

datatype base_call = StartTimer real | ReadMouseState

text \<open>
  The object. The first three fields belong to the base class \<^verbatim>\<open>SpaceMouseBase\<close>
  (\<^verbatim>\<open>_interval_ms\<close>, \<^verbatim>\<open>_additional_callbacks\<close>, \<^verbatim>\<open>_state\<close>), the next four
  are set by \<^verbatim>\<open>Se2SpaceMouse.__init__\<close>. A callback is a Python callable without
  arguments; it is modelled by its effect on the rest of the program, a value of type
  \<open>'e\<close> kept in \<open>env\<close>. \<open>base_calls\<close> records the calls into the base class.
\<close>

record 'e Se2SpaceMouse =
  interval_ms :: real
  additional_callbacks :: "string \<rightharpoonup> ('e \<Rightarrow> 'e)"
  state :: "mouse_state option"
  v_x_sensitivity :: real
  v_y_sensitivity :: real
  omega_z_sensitivity :: real
  base_command :: "real list"
  base_calls :: "base_call list"
  env :: 'e

type_synonym 'e outcome = "(py_error \<times> 'e Se2SpaceMouse) + 'e Se2SpaceMouse"

definition final :: "'e outcome \<Rightarrow> 'e Se2SpaceMouse" where
  "final r = (case r of Inl (e, s) \<Rightarrow> s | Inr s \<Rightarrow> s)"

definition raised :: "'e outcome \<Rightarrow> py_error option" where
  "raised r = (case r of Inl (e, s) \<Rightarrow> Some e | Inr s \<Rightarrow> None)"

subsection \<open>Indexing\<close>

text \<open>
  \<^verbatim>\<open>xs[i]\<close> and \<^verbatim>\<open>xs[i] = v\<close> for a constant index \<open>i \<ge> 0\<close>: out of range they
  raise \<^verbatim>\<open>IndexError\<close>.
\<close>

definition getitem :: "'a list \<Rightarrow> nat \<Rightarrow> py_error + 'a" where
  "getitem xs i = (if i < length xs then Inr (xs ! i) else Inl IndexError)"

definition setitem :: "'a list \<Rightarrow> nat \<Rightarrow> 'a \<Rightarrow> py_error + 'a list" where
  "setitem xs i v = (if i < length xs then Inr (xs[i := v]) else Inl IndexError)"

text \<open>\<^verbatim>\<open>np.zeros(n)\<close>.\<close>

definition zeros :: "nat \<Rightarrow> real list" where
  "zeros n = replicate n 0"

subsection \<open>Construction\<close>

text \<open>
  \<^verbatim>\<open>__init__(v_x_sensitivity=0.8, v_y_sensitivity=0.4, omega_z_sensitivity=1.0,
  interval_ms=10.0)\<close>: an argument left out is \<open>None\<close> and takes its default.

  Modelled from the spec: the base-class constructor \<^verbatim>\<open>super().__init__(interval_ms)\<close>
  is not in the source. It keeps the interval for the timer (``every 10 ms
  (configurable)''); the table of callbacks \<open>cbs\<close> (``a mapping of button-name to
  optional callback'') and the program state \<open>e\<close> the callbacks act on are given from
  outside; no reading has been taken and no call has been made yet.
\<close>

definition Se2SpaceMouse_init ::
  "real option \<Rightarrow> real option \<Rightarrow> real option \<Rightarrow> real option \<Rightarrow>
   (string \<rightharpoonup> ('e \<Rightarrow> 'e)) \<Rightarrow> 'e \<Rightarrow> 'e Se2SpaceMouse" where
  "Se2SpaceMouse_init vx vy wz iv cbs e =
     \<lparr> interval_ms = (case iv of None \<Rightarrow> 10.0 | Some i \<Rightarrow> i),
       additional_callbacks = cbs,
       state = None,
       v_x_sensitivity = (case vx of None \<Rightarrow> 0.8 | Some k \<Rightarrow> k),
       v_y_sensitivity = (case vy of None \<Rightarrow> 0.4 | Some k \<Rightarrow> k),
       omega_z_sensitivity = (case wz of None \<Rightarrow> 1.0 | Some k \<Rightarrow> k),
       base_command = zeros 3,
       base_calls = [],
       env = e \<rparr>"

subsection \<open>Operations\<close>

text \<open>\<^verbatim>\<open>advance\<close>: \<^verbatim>\<open>return self._base_command\<close>. The result and the object after the call.\<close>

definition advance :: "'e Se2SpaceMouse \<Rightarrow> real list \<times> 'e Se2SpaceMouse" where
  "advance s = (base_command s, s)"

text \<open>
  \<^verbatim>\<open>reset\<close>: \<^verbatim>\<open>self._base_command.fill(0.0)\<close> overwrites every entry of the array
  and keeps its shape.
\<close>

definition reset :: "'e Se2SpaceMouse \<Rightarrow> 'e Se2SpaceMouse" where
  "reset s = s\<lparr>base_command := map (\<lambda>_. 0) (base_command s)\<rparr>"

text \<open>
  One statement \<^verbatim>\<open>self._base_command[i] = k * twist[j]\<close>: the right-hand side is
  evaluated first, then the entry is stored.
\<close>

definition assign_scaled ::
  "nat \<Rightarrow> real \<Rightarrow> real list \<Rightarrow> nat \<Rightarrow> 'e Se2SpaceMouse \<Rightarrow> 'e outcome" where
  "assign_scaled i k twist j s =
     (case getitem twist j of
        Inl e \<Rightarrow> Inl (e, s)
      | Inr t \<Rightarrow>
          (case setitem (base_command s) i (k * t) of
             Inl e \<Rightarrow> Inl (e, s)
           | Inr c \<Rightarrow> Inr (s\<lparr>base_command := c\<rparr>)))"

text \<open>
  \<^verbatim>\<open>_process_twist_command(twist)\<close>: a fresh \<^verbatim>\<open>np.zeros(3)\<close> is bound to
  \<^verbatim>\<open>self._base_command\<close>, then its three entries are stored in turn.
\<close>

definition process_twist_command :: "real list \<Rightarrow> 'e Se2SpaceMouse \<Rightarrow> 'e outcome" where
  "process_twist_command twist s =
     (let s0 = s\<lparr>base_command := zeros 3\<rparr> in
      case assign_scaled 0 (v_x_sensitivity s0) twist 0 s0 of
        Inl r \<Rightarrow> Inl r
      | Inr s1 \<Rightarrow>
          (case assign_scaled 1 (v_y_sensitivity s1) twist 1 s1 of
             Inl r \<Rightarrow> Inl r
           | Inr s2 \<Rightarrow> assign_scaled 2 (omega_z_sensitivity s2) twist 5 s2))"

subsection \<open>The poll handler\<close>

text \<open>
  Modelled from the spec: \<^verbatim>\<open>_start_timer\<close> is a method of the base class, which is
  not in the source (``timer-restart delegation to a base class''). It arms the timer
  that calls the handler again after the interval of the object (``every 10 ms
  (configurable)'').
\<close>

definition start_timer :: "'e Se2SpaceMouse \<Rightarrow> 'e Se2SpaceMouse" where
  "start_timer s = s\<lparr>base_calls := base_calls s @ [StartTimer (interval_ms s)]\<rparr>"

text \<open>
  Modelled from the spec: \<^verbatim>\<open>_read_mouse_state\<close> is a method of the base class, which
  is not in the source (``delegation to a base-class method to read hardware state'').
  It stores the reading \<open>hw\<close> that the hardware gives at this poll into
  \<^verbatim>\<open>self._state\<close>.
\<close>

definition read_mouse_state :: "mouse_state \<Rightarrow> 'e Se2SpaceMouse \<Rightarrow> 'e Se2SpaceMouse" where
  "read_mouse_state hw s = s\<lparr>state := Some hw, base_calls := base_calls s @ [ReadMouseState]\<rparr>"

text \<open>
  A condition \<^verbatim>\<open>bs[i] and not bs[j]\<close>: \<^verbatim>\<open>and\<close> evaluates its right operand only
  when the left one is true.
\<close>

definition and_not :: "bool list \<Rightarrow> nat \<Rightarrow> nat \<Rightarrow> py_error + bool" where
  "and_not bs i j =
     (case getitem bs i of
        Inl e \<Rightarrow> Inl e
      | Inr bi \<Rightarrow>
          if bi then (case getitem bs j of Inl e \<Rightarrow> Inl e | Inr bj \<Rightarrow> Inr (\<not> bj))
          else Inr False)"

text \<open>
  The statement
  \<^verbatim>\<open>if k in self._additional_callbacks: self._additional_callbacks[k]\<close>.
  The body is an expression statement: the subscript is evaluated and its value, the
  callback \<open>cb\<close>, is dropped. The source has no call \<^verbatim>\<open>(...)\<close> behind it, so in
  both cases the object and the program state are what they were.
\<close>

definition run_additional_callbacks :: "string \<Rightarrow> 'e Se2SpaceMouse \<Rightarrow> 'e Se2SpaceMouse" where
  "run_additional_callbacks k s =
     (case additional_callbacks s k of None \<Rightarrow> s | Some cb \<Rightarrow> s)"

text \<open>
  What calling the callback registered under \<open>k\<close>, if any, does: the statement
  \<^verbatim>\<open>self._additional_callbacks[k]()\<close> under the same guard. The source does not
  contain it; it is what the claims about callbacks speak of.
\<close>

definition invoke_callback :: "string \<Rightarrow> 'e Se2SpaceMouse \<Rightarrow> 'e Se2SpaceMouse" where
  "invoke_callback k s =
     (case additional_callbacks s k of None \<Rightarrow> s | Some cb \<Rightarrow> s\<lparr>env := cb (env s)\<rparr>)"

text \<open>
  Lines 82 to 93 of \<^verbatim>\<open>_listen_for_updates\<close>: the \<^verbatim>\<open>if\<close>/\<^verbatim>\<open>elif\<close> on the two
  buttons of the reading \<open>st\<close>.
\<close>

definition button_operations :: "mouse_state \<Rightarrow> 'e Se2SpaceMouse \<Rightarrow> 'e outcome" where
  "button_operations st s =
     (case and_not (buttons st) 0 1 of
        Inl e \<Rightarrow> Inl (e, s)
      | Inr left \<Rightarrow>
          if left then Inr (run_additional_callbacks ''L'' s)
          else
            (case and_not (buttons st) 1 0 of
               Inl e \<Rightarrow> Inl (e, s)
             | Inr right \<Rightarrow>
                 if right then Inr (run_additional_callbacks ''R'' (reset s))
                 else Inr s))"

text \<open>
  \<^verbatim>\<open>_listen_for_updates\<close>. \<open>transform_state_to_twist\<close> is the method of the base
  class that turns a reading into the twist \<open>[vx, vy, vz, wx, wy, wz]\<close>; it is not in
  the source and is a parameter. The twist is computed and projected after the
  \<^verbatim>\<open>if\<close>/\<^verbatim>\<open>elif\<close>, at the indentation of the function body: on every path that
  has not raised.
\<close>

definition listen_for_updates ::
  "(mouse_state \<Rightarrow> real list) \<Rightarrow> mouse_state \<Rightarrow> 'e Se2SpaceMouse \<Rightarrow> 'e outcome" where
  "listen_for_updates transform_state_to_twist hw s =
     (let s1 = start_timer s;
          s2 = read_mouse_state hw s1
      in case state s2 of
           None \<Rightarrow> Inl (AttributeError, s2)
         | Some st \<Rightarrow>
             (case button_operations st s2 of
                Inl r \<Rightarrow> Inl r
              | Inr s3 \<Rightarrow>
                  (case state s3 of
                     None \<Rightarrow> Inl (AttributeError, s3)
                   | Some st' \<Rightarrow>
                       process_twist_command (transform_state_to_twist st') s3)))"

subsection \<open>The states of an object\<close>

text \<open>
  \<open>reaches tw s0 s\<close>: the object \<open>s0\<close> can become \<open>s\<close>. Its methods run in any
  order, a poll or a twist projection that raises leaves the object as it is at the
  raise, callbacks are registered through the base class, and the rest of the program
  changes its own state. \<^verbatim>\<open>advance\<close> hands out the array itself and not a copy, so
  its holder can overwrite the entries of the stored command in place; the shape of the
  array stays.
\<close>

inductive reaches ::
  "(mouse_state \<Rightarrow> real list) \<Rightarrow> 'e Se2SpaceMouse \<Rightarrow> 'e Se2SpaceMouse \<Rightarrow> bool"
  for tw s0 where
  constructed: "reaches tw s0 s0"
| advanced: "reaches tw s0 s \<Longrightarrow> reaches tw s0 (snd (advance s))"
| was_reset: "reaches tw s0 s \<Longrightarrow> reaches tw s0 (reset s)"
| polled: "reaches tw s0 s \<Longrightarrow> reaches tw s0 (final (listen_for_updates tw hw s))"
| processed: "reaches tw s0 s \<Longrightarrow> reaches tw s0 (final (process_twist_command twist s))"
| registered: "reaches tw s0 s \<Longrightarrow> reaches tw s0 (s\<lparr>additional_callbacks := cbs\<rparr>)"
| outside: "reaches tw s0 s \<Longrightarrow> reaches tw s0 (s\<lparr>env := e\<rparr>)"
| written_through:
    "reaches tw s0 s \<Longrightarrow> length c = length (base_command s) \<Longrightarrow>
     reaches tw s0 (s\<lparr>base_command := c\<rparr>)"

section \<open>Properties\<close>

subsection \<open>Helper facts\<close>

lemma zeros_3: "zeros 3 = [0, 0, 0]"
  by (simp add: zeros_def numeral_3_eq_3)

lemma process_twist_command_ok:
  assumes "6 \<le> length twist"
  shows "process_twist_command twist s =
           Inr (s\<lparr>base_command := [v_x_sensitivity s * twist ! 0,
                                   v_y_sensitivity s * twist ! 1,
                                   omega_z_sensitivity s * twist ! 5]\<rparr>)"
  using assms
  by (auto simp add: process_twist_command_def assign_scaled_def getitem_def setitem_def
      zeros_3 Let_def)

text \<open>Whether it raises or returns, the projection changes the stored command only.\<close>

lemma final_process_twist_command:
  "\<exists>c. final (process_twist_command twist s) = s\<lparr>base_command := c\<rparr> \<and> length c = 3"
  by (auto simp: process_twist_command_def assign_scaled_def getitem_def setitem_def
      zeros_3 Let_def final_def)

lemma process_twist_command_two_runs:
  assumes "v_x_sensitivity s1 = v_x_sensitivity s2"
    and "v_y_sensitivity s1 = v_y_sensitivity s2"
    and "omega_z_sensitivity s1 = omega_z_sensitivity s2"
  shows "base_command (final (process_twist_command twist s1)) =
           base_command (final (process_twist_command twist s2))"
    and "raised (process_twist_command twist s1) = raised (process_twist_command twist s2)"
  using assms
  by (auto simp: process_twist_command_def assign_scaled_def getitem_def setitem_def
      zeros_3 Let_def final_def raised_def)

lemma run_additional_callbacks_id: "run_additional_callbacks k s = s"
  by (simp add: run_additional_callbacks_def split: option.splits)

lemma button_operations_cases:
  "button_operations st s = Inl (IndexError, s) \<or> button_operations st s = Inr s \<or>
   button_operations st s = Inr (reset s)"
  by (auto simp: button_operations_def and_not_def getitem_def run_additional_callbacks_id
      split: sum.splits)


text \<open>
  The reading consulted by the handler is the one it has just stored, so the two
  lookups of \<^verbatim>\<open>self._state\<close> never meet \<open>None\<close>.
\<close>

lemma listen_for_updates_unfold:
  "listen_for_updates tw hw s =
     (case button_operations hw (read_mouse_state hw (start_timer s)) of
        Inl r \<Rightarrow> Inl r
      | Inr s3 \<Rightarrow> process_twist_command (tw hw) s3)"
proof -
  have st: "state (read_mouse_state hw (start_timer s)) = Some hw"
    by (simp add: read_mouse_state_def)
  have keep: "state s3 = Some hw"
    if "button_operations hw (read_mouse_state hw (start_timer s)) = Inr s3" for s3
    using that button_operations_cases [of hw "read_mouse_state hw (start_timer s)"] st
    by (auto simp: reset_def)
  show ?thesis
    by (auto simp: listen_for_updates_def Let_def st keep split: sum.splits)
qed

lemma polled_base_state_irrelevant:
  "read_mouse_state hw (start_timer (s\<lparr>state := old\<rparr>)) = read_mouse_state hw (start_timer s)"
  by (simp add: read_mouse_state_def start_timer_def)

lemma final_listen_for_updates:
  "\<exists>c. final (listen_for_updates tw hw s) =
         s\<lparr>state := Some hw,
           base_calls := base_calls s @ [StartTimer (interval_ms s), ReadMouseState],
           base_command := c\<rparr> \<and>
       (length (base_command s) = 3 \<longrightarrow> length c = 3)"
proof -
  define s2 where "s2 = read_mouse_state hw (start_timer s)"
  have s2: "s2 = s\<lparr>state := Some hw,
           base_calls := base_calls s @ [StartTimer (interval_ms s), ReadMouseState]\<rparr>"
    by (simp add: s2_def read_mouse_state_def start_timer_def)
  have unf: "listen_for_updates tw hw s =
     (case button_operations hw s2 of Inl r \<Rightarrow> Inl r
      | Inr s3 \<Rightarrow> process_twist_command (tw hw) s3)"
    by (simp add: listen_for_updates_unfold s2_def)
  from button_operations_cases [of hw s2] show ?thesis
  proof (elim disjE)
    assume a: "button_operations hw s2 = Inl (IndexError, s2)"
    have "final (listen_for_updates tw hw s) = s2"
      by (simp add: unf a final_def)
    then have "final (listen_for_updates tw hw s) = s2\<lparr>base_command := base_command s\<rparr>"
      by (simp add: s2)
    then show ?thesis unfolding s2 by (intro exI [of _ "base_command s"]) simp
  next
    assume a: "button_operations hw s2 = Inr s2"
    obtain c where "final (process_twist_command (tw hw) s2) = s2\<lparr>base_command := c\<rparr>"
      and "length c = 3"
      using final_process_twist_command by blast
    then have "final (listen_for_updates tw hw s) = s2\<lparr>base_command := c\<rparr> \<and> length c = 3"
      by (simp add: unf a)
    then show ?thesis unfolding s2 by auto
  next
    assume a: "button_operations hw s2 = Inr (reset s2)"
    obtain c where
      "final (process_twist_command (tw hw) (reset s2)) = (reset s2)\<lparr>base_command := c\<rparr>"
      and "length c = 3"
      using final_process_twist_command by blast
    then have "final (listen_for_updates tw hw s) = s2\<lparr>base_command := c\<rparr> \<and> length c = 3"
      by (simp add: unf a reset_def)
    then show ?thesis unfolding s2 by auto
  qed
qed

text \<open>No operation of the class changes the constants given to the constructor.\<close>

lemma reaches_invariant:
  "reaches tw s0 s \<Longrightarrow>
     (length (base_command s0) = 3 \<longrightarrow> length (base_command s) = 3) \<and>
     v_x_sensitivity s = v_x_sensitivity s0 \<and>
     v_y_sensitivity s = v_y_sensitivity s0 \<and>
     omega_z_sensitivity s = omega_z_sensitivity s0 \<and>
     interval_ms s = interval_ms s0"
proof (induction rule: reaches.induct)
  case constructed
  show ?case by simp
next
  case (advanced s)
  then show ?case by (simp add: advance_def)
next
  case (was_reset s)
  then show ?case by (simp add: reset_def)
next
  case (polled s hw)
  obtain c where c: "final (listen_for_updates tw hw s) =
         s\<lparr>state := Some hw,
           base_calls := base_calls s @ [StartTimer (interval_ms s), ReadMouseState],
           base_command := c\<rparr>" "length (base_command s) = 3 \<longrightarrow> length c = 3"
    using final_listen_for_updates by blast
  with polled.IH show ?case by simp
next
  case (processed s twist)
  obtain c where c: "final (process_twist_command twist s) = s\<lparr>base_command := c\<rparr>"
    "length c = 3"
    using final_process_twist_command by blast
  with processed.IH show ?case by simp
next
  case (registered s cbs)
  then show ?case by simp
next
  case (outside s e)
  then show ?case by simp
next
  case (written_through s c)
  then show ?case by simp
qed

lemma constructed_shape:
  "length (base_command (Se2SpaceMouse_init vx vy wz iv cbs e)) = 3"
  by (simp add: Se2SpaceMouse_init_def zeros_3)

subsection \<open>The twist projection\<close>

text \<open>
  C3. On an object built with the sensitivities \<open>kx\<close>, \<open>ky\<close>, \<open>kw\<close>, in any state it
  can be in, processing a twist of six elements returns normally with the stored command
  \<open>[kx * twist[0], ky * twist[1], kw * twist[5]]\<close> and nothing else changed; replacing
  the elements 2, 3 and 4 of the twist by any values gives the same outcome.
\<close>

theorem twist_projection:
  assumes "reaches tw (Se2SpaceMouse_init (Some kx) (Some ky) (Some kw) iv cbs e) s"
    and "length twist = 6"
  shows "process_twist_command twist s =
           Inr (s\<lparr>base_command := [kx * twist ! 0, ky * twist ! 1, kw * twist ! 5]\<rparr>) \<and>
         (\<forall>vz wx wy. process_twist_command (twist[2 := vz, 3 := wx, 4 := wy]) s =
                      process_twist_command twist s)"
proof -
  have k: "v_x_sensitivity s = kx" "v_y_sensitivity s = ky" "omega_z_sensitivity s = kw"
    using reaches_invariant [OF assms(1)] by (simp_all add: Se2SpaceMouse_init_def)
  have len: "6 \<le> length twist" using assms(2) by simp
  have a: "process_twist_command twist s =
           Inr (s\<lparr>base_command := [kx * twist ! 0, ky * twist ! 1, kw * twist ! 5]\<rparr>)"
    using process_twist_command_ok [OF len, of s] by (simp add: k)
  have b: "process_twist_command (twist[2 := vz, 3 := wx, 4 := wy]) s =
           process_twist_command twist s" for vz wx wy
  proof -
    have "6 \<le> length (twist[2 := vz, 3 := wx, 4 := wy])" using len by simp
    from process_twist_command_ok [OF this, of s] show ?thesis
      by (simp add: a k)
  qed
  from a b show ?thesis by blast
qed

theorem twist_projection_witness:
  "reaches axes (Se2SpaceMouse_init (Some 2) (Some 3) (Some 5) None Map.empty ())
     (reset (Se2SpaceMouse_init (Some 2) (Some 3) (Some 5) None Map.empty ())) \<and>
   length [1, 2, 3, 4, 5, 6 :: real] = 6 \<and>
   process_twist_command [1, 2, 3, 4, 5, 6]
     (reset (Se2SpaceMouse_init (Some 2) (Some 3) (Some 5) None Map.empty ())) =
     Inr ((reset (Se2SpaceMouse_init (Some 2) (Some 3) (Some 5) None Map.empty ()))
            \<lparr>base_command := [2, 6, 30]\<rparr>) \<and>
   process_twist_command [1, 2, 7, 8, 9, 6]
     (reset (Se2SpaceMouse_init (Some 2) (Some 3) (Some 5) None Map.empty ())) =
   process_twist_command [1, 2, 3, 4, 5, 6]
     (reset (Se2SpaceMouse_init (Some 2) (Some 3) (Some 5) None Map.empty ()))"
proof -
  have r: "reaches axes (Se2SpaceMouse_init (Some 2) (Some 3) (Some 5) None Map.empty ())
             (reset (Se2SpaceMouse_init (Some 2) (Some 3) (Some 5) None Map.empty ()))"
    by (intro reaches.was_reset reaches.constructed)
  have l: "length [1, 2, 3, 4, 5, 6 :: real] = 6" by simp
  note t = twist_projection [OF r l]
  have a: "process_twist_command [1, 2, 3, 4, 5, 6]
     (reset (Se2SpaceMouse_init (Some 2) (Some 3) (Some 5) None Map.empty ())) =
     Inr ((reset (Se2SpaceMouse_init (Some 2) (Some 3) (Some 5) None Map.empty ()))
            \<lparr>base_command := [2, 6, 30]\<rparr>)"
    using t [THEN conjunct1] by simp
  have b: "process_twist_command [1, 2, 7, 8, 9, 6]
     (reset (Se2SpaceMouse_init (Some 2) (Some 3) (Some 5) None Map.empty ())) =
   process_twist_command [1, 2, 3, 4, 5, 6]
     (reset (Se2SpaceMouse_init (Some 2) (Some 3) (Some 5) None Map.empty ()))"
    using t [THEN conjunct2, rule_format, of 7 8 9] by simp
  from r l a b show ?thesis by blast
qed

text \<open>
  C7. Two runs of \<^verbatim>\<open>_process_twist_command\<close> on objects with equal sensitivities and
  the same twist end with equal stored commands, and raise or return alike, whatever
  the command stored before each run was.
\<close>

theorem twist_two_run_noninterference:
  assumes "v_x_sensitivity s1 = v_x_sensitivity s2"
    and "v_y_sensitivity s1 = v_y_sensitivity s2"
    and "omega_z_sensitivity s1 = omega_z_sensitivity s2"
  shows "base_command (final (process_twist_command twist s1)) =
           base_command (final (process_twist_command twist s2)) \<and>
         raised (process_twist_command twist s1) = raised (process_twist_command twist s2)"
  using process_twist_command_two_runs [OF assms] by simp

theorem twist_two_run_noninterference_witness:
  "v_x_sensitivity ((Se2SpaceMouse_init None None None None Map.empty ())
       \<lparr>base_command := [1, 2, 3]\<rparr>) =
     v_x_sensitivity ((Se2SpaceMouse_init None None None None Map.empty ())
       \<lparr>base_command := [7, 8, 9]\<rparr>) \<and>
   base_command ((Se2SpaceMouse_init None None None None Map.empty ())
       \<lparr>base_command := [1, 2, 3]\<rparr>) \<noteq>
     base_command ((Se2SpaceMouse_init None None None None Map.empty ())
       \<lparr>base_command := [7, 8, 9]\<rparr>) \<and>
   base_command (final (process_twist_command [1, 2, 3, 4, 5, 6]
       ((Se2SpaceMouse_init None None None None Map.empty ())\<lparr>base_command := [1, 2, 3]\<rparr>))) =
     base_command (final (process_twist_command [1, 2, 3, 4, 5, 6]
       ((Se2SpaceMouse_init None None None None Map.empty ())\<lparr>base_command := [7, 8, 9]\<rparr>)))"
proof -
  have x: "v_x_sensitivity ((Se2SpaceMouse_init None None None None Map.empty ())
       \<lparr>base_command := [1, 2, 3]\<rparr>) =
     v_x_sensitivity ((Se2SpaceMouse_init None None None None Map.empty ())
       \<lparr>base_command := [7, 8, 9]\<rparr>)"
    by simp
  have y: "v_y_sensitivity ((Se2SpaceMouse_init None None None None Map.empty ())
       \<lparr>base_command := [1, 2, 3]\<rparr>) =
     v_y_sensitivity ((Se2SpaceMouse_init None None None None Map.empty ())
       \<lparr>base_command := [7, 8, 9]\<rparr>)"
    by simp
  have w: "omega_z_sensitivity ((Se2SpaceMouse_init None None None None Map.empty ())
       \<lparr>base_command := [1, 2, 3]\<rparr>) =
     omega_z_sensitivity ((Se2SpaceMouse_init None None None None Map.empty ())
       \<lparr>base_command := [7, 8, 9]\<rparr>)"
    by simp
  have d: "base_command ((Se2SpaceMouse_init None None None None Map.empty ())
       \<lparr>base_command := [1, 2, 3]\<rparr>) \<noteq>
     base_command ((Se2SpaceMouse_init None None None None Map.empty ())
       \<lparr>base_command := [7, 8, 9]\<rparr>)"
    by simp
  from x d twist_two_run_noninterference [OF x y w, of "[1, 2, 3, 4, 5, 6]"]
  show ?thesis by blast
qed

subsection \<open>The public operations\<close>

text \<open>
  C4. \<^verbatim>\<open>advance()\<close> returns the stored base command and leaves the object, every
  field of it, as it was.
\<close>

theorem advance_pure:
  "fst (advance s) = base_command s \<and> snd (advance s) = s"
  by (simp add: advance_def)

text \<open>
  C5. In every state an object can be in, \<^verbatim>\<open>advance()\<close> called after \<^verbatim>\<open>reset()\<close>
  returns \<open>[0.0, 0.0, 0.0]\<close>.
\<close>

theorem reset_then_advance_zero:
  assumes "reaches tw (Se2SpaceMouse_init vx vy wz iv cbs e) s"
  shows "fst (advance (reset s)) = [0, 0, 0]"
proof -
  have len: "length (base_command s) = 3"
    using reaches_invariant [OF assms] by (simp add: constructed_shape)
  have "map (\<lambda>_. 0::real) (base_command s) = replicate (length (base_command s)) 0"
    by (simp add: map_replicate_const)
  also have "\<dots> = [0, 0, 0]"
    by (simp add: len numeral_3_eq_3)
  finally show ?thesis
    by (simp add: advance_def reset_def)
qed

theorem reset_then_advance_zero_witness:
  "reaches axes (Se2SpaceMouse_init None None None None Map.empty ())
     ((Se2SpaceMouse_init None None None None Map.empty ())\<lparr>base_command := [0.8, 0.4, -1]\<rparr>) \<and>
   fst (advance ((Se2SpaceMouse_init None None None None Map.empty ())
                   \<lparr>base_command := [0.8, 0.4, -1]\<rparr>)) = [0.8, 0.4, -1] \<and>
   fst (advance (reset ((Se2SpaceMouse_init None None None None Map.empty ())
                   \<lparr>base_command := [0.8, 0.4, -1]\<rparr>))) = [0, 0, 0]"
proof -
  have r: "reaches axes (Se2SpaceMouse_init None None None None Map.empty ())
     ((Se2SpaceMouse_init None None None None Map.empty ())\<lparr>base_command := [0.8, 0.4, -1]\<rparr>)"
    by (rule reaches.written_through [OF reaches.constructed])
      (simp add: Se2SpaceMouse_init_def zeros_3)
  from r reset_then_advance_zero [OF r] show ?thesis
    by (simp add: advance_def)
qed

subsection \<open>The shape of the command\<close>

text \<open>
  C8. The stored base command has three elements after construction and after every
  operation: in every state an object can reach through \<^verbatim>\<open>advance\<close>, \<^verbatim>\<open>reset\<close>,
  the poll handler and the twist projection, returning or raising.
\<close>

theorem command_always_three:
  assumes "reaches tw (Se2SpaceMouse_init vx vy wz iv cbs e) s"
  shows "length (base_command s) = 3"
  using reaches_invariant [OF assms] by (simp add: constructed_shape)

theorem command_always_three_witness:
  "reaches axes (Se2SpaceMouse_init None None None None Map.empty ())
     (final (process_twist_command [1]
       (reset (snd (advance (final (listen_for_updates axes
          \<lparr>buttons = [False, True], axes = [1, 2, 3, 4, 5, 6]\<rparr>
          (Se2SpaceMouse_init None None None None Map.empty ()))))))))
   \<and> length (base_command
     (final (process_twist_command [1]
       (reset (snd (advance (final (listen_for_updates axes
          \<lparr>buttons = [False, True], axes = [1, 2, 3, 4, 5, 6]\<rparr>
          (Se2SpaceMouse_init None None None None Map.empty ()))))))))) = 3"
proof -
  have r: "reaches axes (Se2SpaceMouse_init None None None None Map.empty ())
     (final (process_twist_command [1]
       (reset (snd (advance (final (listen_for_updates axes
          \<lparr>buttons = [False, True], axes = [1, 2, 3, 4, 5, 6]\<rparr>
          (Se2SpaceMouse_init None None None None Map.empty ()))))))))"
    by (intro reaches.processed reaches.was_reset reaches.advanced reaches.polled
        reaches.constructed)
  from r command_always_three [OF r] show ?thesis by blast
qed

subsection \<open>The poll handler\<close>

text \<open>
  C6. On every poll, of an object in any state it can be in, the handler calls
  \<^verbatim>\<open>_start_timer\<close> first, with the interval given to the constructor or 10 ms when
  none was given, and \<^verbatim>\<open>_read_mouse_state\<close> second, also when it raises afterwards.
  The buttons and the projection see the reading taken at this poll: the reading stored
  before has no influence on the outcome.
\<close>

theorem poll_rearms_then_reads:
  assumes "reaches tw (Se2SpaceMouse_init vx vy wz iv cbs e) s"
  shows "base_calls (final (listen_for_updates tw hw s)) =
           base_calls s @ [StartTimer (case iv of None \<Rightarrow> 10 | Some i \<Rightarrow> i), ReadMouseState] \<and>
         state (final (listen_for_updates tw hw s)) = Some hw \<and>
         (\<forall>old. listen_for_updates tw hw (s\<lparr>state := old\<rparr>) = listen_for_updates tw hw s)"
proof -
  have iv: "interval_ms s = (case iv of None \<Rightarrow> 10 | Some i \<Rightarrow> i)"
    using reaches_invariant [OF assms] by (simp add: Se2SpaceMouse_init_def split: option.splits)
  obtain c where c: "final (listen_for_updates tw hw s) =
         s\<lparr>state := Some hw,
           base_calls := base_calls s @ [StartTimer (interval_ms s), ReadMouseState],
           base_command := c\<rparr>"
    using final_listen_for_updates by blast
  have "listen_for_updates tw hw (s\<lparr>state := old\<rparr>) = listen_for_updates tw hw s" for old
    by (simp only: listen_for_updates_unfold polled_base_state_irrelevant)
  then show ?thesis by (simp add: c iv)
qed

theorem poll_rearms_then_reads_witness:
  "reaches axes (Se2SpaceMouse_init None None None None Map.empty ())
     (reset (Se2SpaceMouse_init None None None None Map.empty ())) \<and>
   base_calls (final (listen_for_updates axes \<lparr>buttons = [], axes = []\<rparr>
     (reset (Se2SpaceMouse_init None None None None Map.empty ())))) =
     [StartTimer 10, ReadMouseState] \<and>
   raised (listen_for_updates axes \<lparr>buttons = [], axes = []\<rparr>
     (reset (Se2SpaceMouse_init None None None None Map.empty ()))) = Some IndexError"
proof -
  have r: "reaches axes (Se2SpaceMouse_init None None None None Map.empty ())
     (reset (Se2SpaceMouse_init None None None None Map.empty ()))"
    by (intro reaches.was_reset reaches.constructed)
  have e: "raised (listen_for_updates axes \<lparr>buttons = [], axes = []\<rparr>
     (reset (Se2SpaceMouse_init None None None None Map.empty ()))) = Some IndexError"
    by (simp add: listen_for_updates_unfold button_operations_def and_not_def getitem_def
        raised_def)
  have "base_calls (reset (Se2SpaceMouse_init None None None None Map.empty ())) = []"
    by (simp add: reset_def Se2SpaceMouse_init_def)
  with r e poll_rearms_then_reads [OF r, of "\<lparr>buttons = [], axes = []\<rparr>"]
  show ?thesis by simp
qed

text \<open>
  C1. With a callback registered under \<open>L\<close> and the left button alone pressed, and with
  a callback registered under \<open>R\<close> and the right button alone pressed, the poll returns
  normally and the program state is what it was before: the callback, which would have
  changed it, has not run.
\<close>

theorem single_button_callback_not_called:
  "raised (listen_for_updates axes \<lparr>buttons = [True, False], axes = [0, 0, 0, 0, 0, 0]\<rparr>
      (Se2SpaceMouse_init None None None None [''L'' \<mapsto> Suc] 0)) = None \<and>
   env (final (listen_for_updates axes \<lparr>buttons = [True, False], axes = [0, 0, 0, 0, 0, 0]\<rparr>
      (Se2SpaceMouse_init None None None None [''L'' \<mapsto> Suc] 0))) = 0 \<and>
   env (invoke_callback ''L'' (Se2SpaceMouse_init None None None None [''L'' \<mapsto> Suc] 0)) = 1 \<and>
   raised (listen_for_updates axes \<lparr>buttons = [False, True], axes = [0, 0, 0, 0, 0, 0]\<rparr>
      (Se2SpaceMouse_init None None None None [''R'' \<mapsto> Suc] 0)) = None \<and>
   env (final (listen_for_updates axes \<lparr>buttons = [False, True], axes = [0, 0, 0, 0, 0, 0]\<rparr>
      (Se2SpaceMouse_init None None None None [''R'' \<mapsto> Suc] 0))) = 0 \<and>
   env (invoke_callback ''R'' (Se2SpaceMouse_init None None None None [''R'' \<mapsto> Suc] 0)) = 1"
  by (simp add: listen_for_updates_def start_timer_def read_mouse_state_def
      button_operations_def and_not_def getitem_def run_additional_callbacks_def
      process_twist_command_def assign_scaled_def setitem_def zeros_3 reset_def
      Se2SpaceMouse_init_def invoke_callback_def final_def raised_def Let_def)

text \<open>
  C2. With the right button alone pressed and the axes \<open>[1, 2, 3, 4, 5, 6]\<close>, on an
  object with the default sensitivities, the poll returns normally and \<^verbatim>\<open>advance()\<close>
  then returns \<open>[0.8, 0.8, 6.0]\<close>, the projection of the axes, not the zero vector:
  the projection runs after the reset on this path too.
\<close>

theorem right_button_command_overwritten:
  "raised (listen_for_updates axes \<lparr>buttons = [False, True], axes = [1, 2, 3, 4, 5, 6]\<rparr>
      (Se2SpaceMouse_init None None None None Map.empty ())) = None \<and>
   fst (advance (final (listen_for_updates axes
      \<lparr>buttons = [False, True], axes = [1, 2, 3, 4, 5, 6]\<rparr>
      (Se2SpaceMouse_init None None None None Map.empty ())))) = [0.8, 0.8, 6] \<and>
   fst (advance (final (listen_for_updates axes
      \<lparr>buttons = [False, True], axes = [1, 2, 3, 4, 5, 6]\<rparr>
      (Se2SpaceMouse_init None None None None Map.empty ())))) \<noteq> [0, 0, 0]"
  by (simp add: listen_for_updates_def start_timer_def read_mouse_state_def
      button_operations_def and_not_def getitem_def run_additional_callbacks_def
      process_twist_command_def assign_scaled_def setitem_def zeros_3 reset_def advance_def
      Se2SpaceMouse_init_def final_def raised_def Let_def)




text \<open>
  C10. When the reading has at least two button flags and the twist computed from it
  has at least six components, the poll handler returns normally: no index it uses is
  out of range. The twist projection alone returns normally on every twist of at least
  six components.
\<close>

theorem index_error_unreachable:
  assumes "2 \<le> length (buttons hw)" and "6 \<le> length (tw hw)" and "6 \<le> length twist"
  shows "(\<exists>s'. listen_for_updates tw hw s = Inr s') \<and>
         (\<exists>s'. process_twist_command twist s = Inr s')"
proof -
  let ?s2 = "read_mouse_state hw (start_timer s)"
  have b: "button_operations hw ?s2 = Inr ?s2 \<or> button_operations hw ?s2 = Inr (reset ?s2)"
    using assms(1)
    by (auto simp: button_operations_def and_not_def getitem_def run_additional_callbacks_id)
  have "\<exists>s'. listen_for_updates tw hw s = Inr s'"
    using b process_twist_command_ok [OF assms(2), of ?s2]
      process_twist_command_ok [OF assms(2), of "reset ?s2"]
    by (auto simp: listen_for_updates_unfold)
  moreover have "\<exists>s'. process_twist_command twist s = Inr s'"
    using process_twist_command_ok [OF assms(3)] by blast
  ultimately show ?thesis by blast
qed

theorem index_error_unreachable_witness:
  "2 \<le> length (buttons \<lparr>buttons = [True, False], axes = [1, 2, 3, 4, 5, 6]\<rparr>) \<and>
   6 \<le> length (axes \<lparr>buttons = [True, False], axes = [1, 2, 3, 4, 5, 6]\<rparr>) \<and>
   (\<exists>s'. listen_for_updates axes \<lparr>buttons = [True, False], axes = [1, 2, 3, 4, 5, 6]\<rparr>
            (Se2SpaceMouse_init None None None None Map.empty ()) = Inr s') \<and>
   (\<exists>s'. process_twist_command [6, 5, 4, 3, 2, 1, 0]
            (Se2SpaceMouse_init None None None None Map.empty ()) = Inr s')"
proof -
  have b: "2 \<le> length (buttons \<lparr>buttons = [True, False], axes = [1, 2, 3, 4, 5, 6]\<rparr>)"
    by simp
  have a: "6 \<le> length (axes \<lparr>buttons = [True, False], axes = [1, 2, 3, 4, 5, 6]\<rparr>)"
    by simp
  have t: "6 \<le> length [6, 5, 4, 3, 2, 1, 0 :: real]"
    by simp
  from b a index_error_unreachable [where tw = axes, OF b a t] show ?thesis by blast
qed

end
